theory Spec2Isabelle
  imports Main "HOL-Library.Word"
begin

unbundle bit_operations_syntax

section \<open>VulkanContext.h: memory-type selection, the timer query pool, TexturePointer\<close>

type_synonym u32 = "32 word"
type_synonym VkFlags = "32 word"

subsection \<open>The memory-type table\<close>

text \<open>
  Modelled from the spec: the Vulkan header that declares \<^verbatim>\<open>VK_MAX_MEMORY_TYPES\<close>,
  \<^verbatim>\<open>VkMemoryType\<close> and \<^verbatim>\<open>VkPhysicalDeviceMemoryProperties\<close> is not among the
  sources. The spec has the table as an "ordered sequence of (property-flag-set) entries,
  index-addressable, count \<le> a fixed hardware maximum". The maximum is the header's 32,
  one entry for each bit of the 32-bit type bitmask; the struct carries the count of
  entries the driver filled in (\<^verbatim>\<open>memoryTypeCount\<close>) beside the fixed-size array
  \<^verbatim>\<open>memoryTypes[VK_MAX_MEMORY_TYPES]\<close>.
\<close>

definition VK_MAX_MEMORY_TYPES :: u32 where
  "VK_MAX_MEMORY_TYPES = 32"

record VkMemoryType =
  propertyFlags :: VkFlags
  heapIndex :: u32

record VkPhysicalDeviceMemoryProperties =
  memoryTypeCount :: u32
  memoryTypes :: "VkMemoryType list"

text \<open>
  The C array has exactly \<^verbatim>\<open>VK_MAX_MEMORY_TYPES\<close> elements, whatever
  \<^verbatim>\<open>memoryTypeCount\<close> says; a list stands for it only when it has that length.
\<close>

definition wf_memoryProperties :: "VkPhysicalDeviceMemoryProperties \<Rightarrow> bool" where
  "wf_memoryProperties mp \<longleftrightarrow> length (memoryTypes mp) = unat VK_MAX_MEMORY_TYPES"

subsection \<open>VulkanContext::selectMemoryType\<close>

text \<open>
  The outcome of a call. \<open>Return i\<close> is the \<^verbatim>\<open>return i\<close> inside the loop.
  \<open>PostconditionPanic v\<close> is the path after the loop: the failing
  \<^verbatim>\<open>ASSERT_POSTCONDITION(false, ...)\<close> has been executed, and \<open>v\<close> is the operand
  of the \<^verbatim>\<open>return\<close> statement that follows it, which is what a caller receives in a
  build where the panic does not stop the program.
\<close>

datatype 'a outcome = Return 'a | PostconditionPanic 'a

text \<open>
  The \<^verbatim>\<open>for\<close> loop, with the loop counter \<open>i\<close> and the shifted copy of
  \<^verbatim>\<open>flags\<close> as arguments. \<open>Some i\<close> is the \<^verbatim>\<open>return i\<close>; \<open>None\<close> is the loop
  running to its end.
\<close>

function selectMemoryType_loop ::
  "VkPhysicalDeviceMemoryProperties \<Rightarrow> VkFlags \<Rightarrow> u32 \<Rightarrow> u32 \<Rightarrow> u32 option" where
  "selectMemoryType_loop mMemoryProperties reqs i flags =
     (if i < VK_MAX_MEMORY_TYPES then
        (if flags AND 1 \<noteq> 0 then
           (if propertyFlags (memoryTypes mMemoryProperties ! unat i) AND reqs = reqs
            then Some i
            else selectMemoryType_loop mMemoryProperties reqs (i + 1) (drop_bit 1 flags))
         else selectMemoryType_loop mMemoryProperties reqs (i + 1) (drop_bit 1 flags))
      else None)"
  by pat_completeness auto

termination selectMemoryType_loop
  by (relation "measure (\<lambda>(mp, reqs, i, flags). unat VK_MAX_MEMORY_TYPES - unat i)")
     (auto simp: VK_MAX_MEMORY_TYPES_def unat_word_ariths word_less_nat_alt)

declare selectMemoryType_loop.simps [simp del]

definition selectMemoryType ::
  "VkPhysicalDeviceMemoryProperties \<Rightarrow> u32 \<Rightarrow> VkFlags \<Rightarrow> u32 outcome" where
  "selectMemoryType mMemoryProperties flags reqs =
     (case selectMemoryType_loop mMemoryProperties reqs 0 flags of
        Some i \<Rightarrow> Return i
      | None \<Rightarrow> PostconditionPanic (ucast (NOT (0 :: 64 word))))"

text \<open>
  The spec's words for the test the scan applies: "a candidate index is eligible only if
  its bit is set in typeBitmask AND its property-flag set is a superset of
  requiredFlags". A flag word is read as the set of its bit positions; an index is a
  position of the array, below \<^verbatim>\<open>VK_MAX_MEMORY_TYPES\<close>.
\<close>

definition flag_set :: "VkFlags \<Rightarrow> nat set" where
  "flag_set w = {n. bit w n}"

definition eligible ::
  "VkPhysicalDeviceMemoryProperties \<Rightarrow> u32 \<Rightarrow> VkFlags \<Rightarrow> nat \<Rightarrow> bool" where
  "eligible mp typeBitmask requiredFlags i \<longleftrightarrow>
     i < unat VK_MAX_MEMORY_TYPES \<and> bit typeBitmask i \<and>
     flag_set requiredFlags \<subseteq> flag_set (propertyFlags (memoryTypes mp ! i))"

text \<open>
  A table for the examples: flags \<open>A\<close> at index 0, \<open>A OR B\<close> at indices 2 and 5,
  no flags anywhere else; the driver reports six memory types, and the array has its
  \<^verbatim>\<open>VK_MAX_MEMORY_TYPES\<close> elements.
\<close>

definition example_memoryProperties ::
  "VkFlags \<Rightarrow> VkFlags \<Rightarrow> VkPhysicalDeviceMemoryProperties" where
  "example_memoryProperties A B =
     \<lparr>memoryTypeCount = 6,
      memoryTypes =
        [\<lparr>propertyFlags = A, heapIndex = 0\<rparr>, \<lparr>propertyFlags = 0, heapIndex = 0\<rparr>,
         \<lparr>propertyFlags = A OR B, heapIndex = 0\<rparr>, \<lparr>propertyFlags = 0, heapIndex = 0\<rparr>,
         \<lparr>propertyFlags = 0, heapIndex = 0\<rparr>, \<lparr>propertyFlags = A OR B, heapIndex = 0\<rparr>]
        @ replicate 26 \<lparr>propertyFlags = 0, heapIndex = 0\<rparr>\<rparr>"

subsection \<open>TexturePointer\<close>

text \<open>
  A \<^verbatim>\<open>VulkanTexture*\<close> is an address, \<^verbatim>\<open>nullptr\<close> the address 0. A
  \<^verbatim>\<open>std::shared_ptr<VulkanTexture>\<close> is the pointer it hands out (\<^verbatim>\<open>get()\<close>)
  and the control block it shares with its copies; a copy is the same pair. The use count
  kept in the control block belongs to the standard library and is not modelled.
\<close>

type_synonym VulkanTexture_ptr = nat

definition nullptr :: VulkanTexture_ptr where
  "nullptr = 0"

record shared_ptr =
  get :: VulkanTexture_ptr
  control_block :: nat

text \<open>\<^verbatim>\<open>std::variant<VulkanTexture*, std::shared_ptr<VulkanTexture>>\<close>\<close>

datatype variant = V0 VulkanTexture_ptr | V1 shared_ptr

datatype error = AssertInvariant | BadVariantAccess | ResourceExhausted

fun index :: "variant \<Rightarrow> nat" where
  "index (V0 p) = 0"
| "index (V1 sp) = 1"

fun std_get_0 :: "variant \<Rightarrow> error + VulkanTexture_ptr" where
  "std_get_0 (V0 p) = Inr p"
| "std_get_0 (V1 sp) = Inl BadVariantAccess"

fun std_get_1 :: "variant \<Rightarrow> error + shared_ptr" where
  "std_get_1 (V0 p) = Inl BadVariantAccess"
| "std_get_1 (V1 sp) = Inr sp"

record TexturePointer =
  mTexture :: variant

text \<open>
  \<^verbatim>\<open>TexturePointer() = default\<close>: the variant value-initialises its first
  alternative, a null \<^verbatim>\<open>VulkanTexture*\<close>.
\<close>

definition TexturePointer_default :: TexturePointer where
  "TexturePointer_default = \<lparr>mTexture = V0 nullptr\<rparr>"

definition TexturePointer_ptr :: "VulkanTexture_ptr \<Rightarrow> TexturePointer" where
  "TexturePointer_ptr tex = \<lparr>mTexture = V0 tex\<rparr>"

definition TexturePointer_shared_ptr :: "shared_ptr \<Rightarrow> TexturePointer" where
  "TexturePointer_shared_ptr tex = \<lparr>mTexture = V1 tex\<rparr>"

definition assign_ptr :: "TexturePointer \<Rightarrow> VulkanTexture_ptr \<Rightarrow> TexturePointer" where
  "assign_ptr this tex = this\<lparr>mTexture := V0 tex\<rparr>"

definition assign_shared_ptr :: "TexturePointer \<Rightarrow> shared_ptr \<Rightarrow> TexturePointer" where
  "assign_shared_ptr this tex = this\<lparr>mTexture := V1 tex\<rparr>"

text \<open>\<^verbatim>\<open>explicit operator VulkanTexture*() const\<close>\<close>

definition operator_VulkanTexture_ptr :: "TexturePointer \<Rightarrow> error + VulkanTexture_ptr" where
  "operator_VulkanTexture_ptr this =
     (if index (mTexture this) = 0 then std_get_0 (mTexture this)
      else map_sum id get (std_get_1 (mTexture this)))"

text \<open>\<^verbatim>\<open>explicit operator VulkanTexture const*() const\<close>\<close>

definition operator_VulkanTexture_const_ptr :: "TexturePointer \<Rightarrow> error + VulkanTexture_ptr" where
  "operator_VulkanTexture_const_ptr this =
     (if index (mTexture this) = 0 then std_get_0 (mTexture this)
      else map_sum id get (std_get_1 (mTexture this)))"

text \<open>
  \<^verbatim>\<open>explicit operator std::shared_ptr<VulkanTexture>() const\<close>, in a build where
  \<^verbatim>\<open>assert_invariant\<close> is active: a false condition stops the call there.
\<close>

definition operator_shared_ptr :: "TexturePointer \<Rightarrow> error + shared_ptr" where
  "operator_shared_ptr this =
     (if index (mTexture this) = 1 then std_get_1 (mTexture this)
      else Inl AssertInvariant)"

text \<open>\<^verbatim>\<open>operator bool() const\<close>; a shared_ptr is true when \<^verbatim>\<open>get()\<close> is not null.\<close>

definition operator_bool :: "TexturePointer \<Rightarrow> error + bool" where
  "operator_bool this =
     (if index (mTexture this) = 0 then map_sum id (\<lambda>p. p \<noteq> nullptr) (std_get_0 (mTexture this))
      else map_sum id (\<lambda>sp. get sp \<noteq> nullptr) (std_get_1 (mTexture this)))"

text \<open>\<^verbatim>\<open>VulkanTexture* operator->()\<close>\<close>

definition operator_arrow :: "TexturePointer \<Rightarrow> error + VulkanTexture_ptr" where
  "operator_arrow this =
     (if index (mTexture this) = 0 then std_get_0 (mTexture this)
      else map_sum id get (std_get_1 (mTexture this)))"

text \<open>\<^verbatim>\<open>VulkanTexture const* operator->() const\<close>\<close>

definition operator_arrow_const :: "TexturePointer \<Rightarrow> error + VulkanTexture_ptr" where
  "operator_arrow_const this =
     (if index (mTexture this) = 0 then std_get_0 (mTexture this)
      else map_sum id get (std_get_1 (mTexture this)))"

text \<open>The mode of a handle is the alternative its variant holds.\<close>

definition owning :: "TexturePointer \<Rightarrow> bool" where
  "owning this \<longleftrightarrow> index (mTexture this) = 1"

subsection \<open>VulkanTimestamps\<close>

text \<open>
  The class as the header declares it: the device and pool handles and the presence
  bitmap \<^verbatim>\<open>utils::bitset32 mUsed\<close>. The mutex makes each call one step; the model is
  of calls taken one at a time.
\<close>

record VulkanTimestamps =
  mDevice :: nat
  mPool :: nat
  mUsed :: "32 word"

text \<open>
  Modelled from the spec: the constructor of \<^verbatim>\<open>VulkanTimestamps\<close>, whose body is not
  among the sources. A pool starts with no slot allocated ("presence bitmap: C bits, one
  per slot, 1 = currently allocated").
\<close>

definition VulkanTimestamps_new :: "nat \<Rightarrow> nat \<Rightarrow> VulkanTimestamps" where
  "VulkanTimestamps_new device pool = \<lparr>mDevice = device, mPool = pool, mUsed = 0\<rparr>"

text \<open>
  Modelled from the spec: the capacity C, "fixed number of hardware timestamp slots
  (bounded by the width of the presence bitmap, e.g., 32 slots)"; for the 32-bit bitmap
  of the header it is 32.
\<close>

definition capacity :: nat where
  "capacity = 32"

text \<open>
  Modelled from the spec: \<^verbatim>\<open>VulkanTimestamps::getNextQuery\<close>, declared in the header
  and defined in a file that is not among the sources. "scans the presence bitmap for the
  lowest index i such that slots i and i+1 (a fixed pairing scheme) are both free; marks
  both used; returns the pair. Fails with a resource-exhaustion error if no pair is free".
\<close>

definition free_pair :: "32 word \<Rightarrow> nat \<Rightarrow> bool" where
  "free_pair used i \<longleftrightarrow> \<not> bit used i \<and> \<not> bit used (i + 1)"

definition getNextQuery :: "VulkanTimestamps \<Rightarrow> error + ((u32 \<times> u32) \<times> VulkanTimestamps)" where
  "getNextQuery this =
     (case find (free_pair (mUsed this)) [0 ..< capacity - 1] of
        None \<Rightarrow> Inl ResourceExhausted
      | Some i \<Rightarrow>
          Inr ((of_nat i, of_nat (i + 1)),
               this\<lparr>mUsed := set_bit (i + 1) (set_bit i (mUsed this))\<rparr>))"

text \<open>
  Modelled from the spec: \<^verbatim>\<open>VulkanTimestamps::clearQuery\<close>, declared in the header
  and defined in a file that is not among the sources. "free(baseIndex): clears both bits
  of the pair, making them eligible for reuse".
\<close>

definition clearQuery :: "VulkanTimestamps \<Rightarrow> u32 \<Rightarrow> VulkanTimestamps" where
  "clearQuery this queryIndex =
     this\<lparr>mUsed := unset_bit (unat queryIndex + 1) (unset_bit (unat queryIndex) (mUsed this))\<rparr>"

text \<open>
  Successive allocations with nothing freed in between: \<open>n\<close> calls of
  \<^verbatim>\<open>getNextQuery\<close>, the pairs in the order they were handed out. The first failure
  ends the run.
\<close>

definition slots_of :: "(u32 \<times> u32) list \<Rightarrow> u32 list" where
  "slots_of pairs = concat (map (\<lambda>(a, b). [a, b]) pairs)"

fun allocate_n :: "nat \<Rightarrow> VulkanTimestamps \<Rightarrow> error + ((u32 \<times> u32) list \<times> VulkanTimestamps)" where
  "allocate_n 0 this = Inr ([], this)"
| "allocate_n (Suc n) this =
     (case getNextQuery this of
        Inl e \<Rightarrow> Inl e
      | Inr (pair, this') \<Rightarrow>
          (case allocate_n n this' of
             Inl e \<Rightarrow> Inl e
           | Inr (pairs, this'') \<Rightarrow> Inr (pair # pairs, this'')))"

section \<open>Memory-type selection: the scan finds the lowest eligible index\<close>

text \<open>The two tests of the loop body are the two conditions of eligibility.\<close>

lemma superset_test:
  "(pf AND reqs = reqs) \<longleftrightarrow> flag_set reqs \<subseteq> flag_set pf"
proof
  assume h: "pf AND reqs = reqs"
  show "flag_set reqs \<subseteq> flag_set pf"
  proof
    fix n assume "n \<in> flag_set reqs"
    then have "bit (pf AND reqs) n" by (simp add: flag_set_def h)
    then show "n \<in> flag_set pf" by (simp add: flag_set_def bit_and_iff)
  qed
next
  assume "flag_set reqs \<subseteq> flag_set pf"
  then have "bit reqs n \<Longrightarrow> bit pf n" for n by (auto simp: flag_set_def)
  then show "pf AND reqs = reqs" by (intro bit_eqI) (auto simp: bit_and_iff)
qed

lemma low_bit_test:
  "(drop_bit k flags AND 1 \<noteq> 0) \<longleftrightarrow> bit flags k" for flags :: "32 word"
  by (simp add: and_one_eq bit_iff_odd_drop_bit odd_iff_mod_2_eq_one)

lemma index_word:
  "k < 32 \<Longrightarrow> unat (of_nat k :: 32 word) = k"
  "k < 32 \<Longrightarrow> (of_nat k :: 32 word) < VK_MAX_MEMORY_TYPES"
  by (simp_all add: VK_MAX_MEMORY_TYPES_def unat_of_nat word_less_nat_alt)

text \<open>
  The loop invariant: entering iteration \<open>k\<close>, the counter is \<open>k\<close> and the local copy
  of the bitmask is the caller's, shifted right \<open>k\<close> times; from there the loop returns
  the first eligible index at or after \<open>k\<close>, if there is one.
\<close>

lemma loop_find:
  "k \<le> 32 \<Longrightarrow>
   selectMemoryType_loop mp reqs (of_nat k) (drop_bit k flags) =
     map_option of_nat (find (eligible mp flags reqs) [k ..< 32])"
proof (induction "32 - k" arbitrary: k)
  case 0
  then have "k = 32" by simp
  then show ?case
    by (subst selectMemoryType_loop.simps) (simp add: VK_MAX_MEMORY_TYPES_def)
next
  case (Suc n)
  then have k: "k < 32" by simp
  have "selectMemoryType_loop mp reqs (of_nat (Suc k)) (drop_bit (Suc k) flags) =
      map_option of_nat (find (eligible mp flags reqs) [Suc k ..< 32])"
    using Suc.hyps(1) [of "Suc k"] Suc.hyps(2) k by simp
  then have step: "selectMemoryType_loop mp reqs (of_nat k + 1) (drop_bit 1 (drop_bit k flags)) =
      map_option of_nat (find (eligible mp flags reqs) [Suc k ..< 32])"
    by (simp add: add.commute)
  have el: "eligible mp flags reqs k \<longleftrightarrow>
      drop_bit k flags AND 1 \<noteq> 0 \<and> propertyFlags (memoryTypes mp ! k) AND reqs = reqs"
    using k unfolding eligible_def low_bit_test superset_test by (simp add: VK_MAX_MEMORY_TYPES_def)
  have lt: "(of_nat k :: 32 word) < VK_MAX_MEMORY_TYPES" and un: "unat (of_nat k :: 32 word) = k"
    using k by (simp_all add: index_word)
  have upt: "[k ..< 32] = k # [Suc k ..< 32]" using k by (simp add: upt_conv_Cons)
  have unf: "selectMemoryType_loop mp reqs (of_nat k) (drop_bit k flags) =
     (if drop_bit k flags AND 1 \<noteq> 0 \<and> propertyFlags (memoryTypes mp ! k) AND reqs = reqs
      then Some (of_nat k)
      else selectMemoryType_loop mp reqs (of_nat k + 1) (drop_bit 1 (drop_bit k flags)))"
    by (subst selectMemoryType_loop.simps) (simp only: lt un if_True split: if_split, blast)
  show ?case
    unfolding unf step upt find.simps el [symmetric] by simp
qed

lemma loop_from_zero:
  "selectMemoryType_loop mp reqs 0 flags =
     map_option of_nat (find (eligible mp flags reqs) [0 ..< 32])"
  using loop_find [of 0 mp reqs flags] by simp

lemma eligible_below: "eligible mp flags reqs i \<Longrightarrow> i < 32"
  by (simp add: eligible_def VK_MAX_MEMORY_TYPES_def)

lemma find_upt_None:
  "find P [0 ..< n] = None \<longleftrightarrow> (\<forall>i<n. \<not> P i)"
  by (auto simp: find_None_iff)

lemma find_upt_Some:
  "find P [0 ..< n] = Some i \<longleftrightarrow> i < n \<and> P i \<and> (\<forall>j<i. \<not> P j)"
  by (auto simp: find_Some_iff)

lemma ucast_minus_one: "(ucast (- 1 :: 64 word) :: 32 word) = 0xFFFFFFFF"
proof -
  have "(ucast (- 1 :: 64 word) :: 32 word) = - 1"
    by (rule bit_eqI) (simp add: bit_ucast_iff)
  then show ?thesis by simp
qed

lemma sentinel_value: "(ucast (NOT (0 :: 64 word)) :: 32 word) = 0xFFFFFFFF"
  using ucast_minus_one by simp

lemma select_find:
  "selectMemoryType mp flags reqs =
     (case find (eligible mp flags reqs) [0 ..< 32] of
        Some i \<Rightarrow> Return (of_nat i)
      | None \<Rightarrow> PostconditionPanic 0xFFFFFFFF)"
  unfolding selectMemoryType_def loop_from_zero sentinel_value
  by (cases "find (eligible mp flags reqs) [0 ..< 32]") (simp_all only: option.case option.map)

lemma select_Return_iff:
  "selectMemoryType mp flags reqs = Return r \<longleftrightarrow>
     (\<exists>i. r = of_nat i \<and> eligible mp flags reqs i \<and> (\<forall>j<i. \<not> eligible mp flags reqs j))"
proof -
  have "selectMemoryType mp flags reqs = Return r \<longleftrightarrow>
      (\<exists>i. find (eligible mp flags reqs) [0 ..< 32] = Some i \<and> r = of_nat i)"
    unfolding select_find
    by (cases "find (eligible mp flags reqs) [0 ..< 32]")
       (auto simp only: option.case outcome.inject outcome.distinct option.inject option.distinct)
  also have "\<dots> \<longleftrightarrow> (\<exists>i. r = of_nat i \<and> eligible mp flags reqs i \<and> (\<forall>j<i. \<not> eligible mp flags reqs j))"
    unfolding find_upt_Some using eligible_below by blast
  finally show ?thesis .
qed

lemma select_Panic_iff:
  "selectMemoryType mp flags reqs = PostconditionPanic v \<longleftrightarrow>
     v = 0xFFFFFFFF \<and> (\<forall>i. \<not> eligible mp flags reqs i)"
proof -
  have "selectMemoryType mp flags reqs = PostconditionPanic v \<longleftrightarrow>
      find (eligible mp flags reqs) [0 ..< 32] = None \<and> v = 0xFFFFFFFF"
    unfolding select_find
    by (cases "find (eligible mp flags reqs) [0 ..< 32]")
       (auto simp only: option.case outcome.inject outcome.distinct option.inject option.distinct)
  also have "\<dots> \<longleftrightarrow> v = 0xFFFFFFFF \<and> (\<forall>i. \<not> eligible mp flags reqs i)"
    unfolding find_upt_None using eligible_below by blast
  finally show ?thesis .
qed


lemma flag_set_or: "flag_set (A OR B) = flag_set A \<union> flag_set B"
  by (auto simp: flag_set_def bit_or_iff)

lemma select_Return_unat:
  "selectMemoryType mp flags reqs = Return r \<longleftrightarrow>
     unat r < 32 \<and> eligible mp flags reqs (unat r) \<and> (\<forall>j<unat r. \<not> eligible mp flags reqs j)"
proof
  assume "selectMemoryType mp flags reqs = Return r"
  then obtain i where i: "r = of_nat i" "eligible mp flags reqs i" "\<forall>j<i. \<not> eligible mp flags reqs j"
    unfolding select_Return_iff by blast
  then have "unat r = i" using eligible_below index_word(1) by blast
  moreover have "i < 32" using i(2) by (rule eligible_below)
  ultimately show "unat r < 32 \<and> eligible mp flags reqs (unat r) \<and> (\<forall>j<unat r. \<not> eligible mp flags reqs j)"
    using i(2,3) by simp
next
  assume h: "unat r < 32 \<and> eligible mp flags reqs (unat r) \<and> (\<forall>j<unat r. \<not> eligible mp flags reqs j)"
  have "r = of_nat (unat r)" by simp
  with h show "selectMemoryType mp flags reqs = Return r"
    unfolding select_Return_iff by blast
qed

text \<open>
  Claim C1. For every memory-type table, type bitmask and required flags: when some index
  is eligible (its bit is set in the bitmask and its property flags are a superset of the
  required flags), \<open>selectMemoryType\<close> returns the least eligible index. In
  particular, for a table with flags \<open>A\<close> at index 0 and \<open>A OR B\<close> at indices 2 and 5, a
  bitmask that admits exactly the indices 0, 2 and 5, and required flags \<open>A OR B\<close>, it
  returns 2; here \<open>B\<close> is not contained in \<open>A\<close>, so that index 0 is not itself eligible
  and 2 is the lowest eligible index, as the example has it.
\<close>

theorem selectMemoryType_lowest_eligible:
  assumes "wf_memoryProperties mp"
  shows "((\<exists>i. eligible mp typeBitmask requiredFlags i) \<longrightarrow>
            (\<exists>r. selectMemoryType mp typeBitmask requiredFlags = Return r \<and>
                 eligible mp typeBitmask requiredFlags (unat r) \<and>
                 (\<forall>j. eligible mp typeBitmask requiredFlags j \<longrightarrow> unat r \<le> j))) \<and>
         (propertyFlags (memoryTypes mp ! 0) = A \<and>
          propertyFlags (memoryTypes mp ! 2) = A OR B \<and>
          propertyFlags (memoryTypes mp ! 5) = A OR B \<and>
          flag_set typeBitmask = {0, 2, 5} \<and> \<not> flag_set B \<subseteq> flag_set A \<longrightarrow>
            selectMemoryType mp typeBitmask (A OR B) = Return 2)"
proof (intro conjI impI)
  assume "\<exists>i. eligible mp typeBitmask requiredFlags i"
  then obtain i where i: "eligible mp typeBitmask requiredFlags i"
    and least: "\<forall>j<i. \<not> eligible mp typeBitmask requiredFlags j"
    using exists_least_iff [of "eligible mp typeBitmask requiredFlags"] by blast
  have ri: "unat (of_nat i :: 32 word) = i" using i eligible_below index_word(1) by blast
  have "selectMemoryType mp typeBitmask requiredFlags = Return (of_nat i)"
    unfolding select_Return_iff using i least by blast
  moreover have "\<forall>j. eligible mp typeBitmask requiredFlags j \<longrightarrow> i \<le> j"
    using least by (meson not_le)
  ultimately show "\<exists>r. selectMemoryType mp typeBitmask requiredFlags = Return r \<and>
      eligible mp typeBitmask requiredFlags (unat r) \<and>
      (\<forall>j. eligible mp typeBitmask requiredFlags j \<longrightarrow> unat r \<le> j)"
    using i ri by metis
next
  assume h: "propertyFlags (memoryTypes mp ! 0) = A \<and>
          propertyFlags (memoryTypes mp ! 2) = A OR B \<and>
          propertyFlags (memoryTypes mp ! 5) = A OR B \<and>
          flag_set typeBitmask = {0, 2, 5} \<and> \<not> flag_set B \<subseteq> flag_set A"
  then have fs: "flag_set typeBitmask = {0, 2, 5}" by blast
  have bits: "bit typeBitmask n \<longleftrightarrow> n = 0 \<or> n = 2 \<or> n = 5" for n
  proof -
    have "bit typeBitmask n \<longleftrightarrow> n \<in> flag_set typeBitmask" by (simp add: flag_set_def)
    then show ?thesis unfolding fs by simp
  qed
  have e2: "eligible mp typeBitmask (A OR B) 2"
    using h bits by (simp add: eligible_def VK_MAX_MEMORY_TYPES_def)
  have e0: "\<not> eligible mp typeBitmask (A OR B) 0"
    using h by (auto simp: eligible_def flag_set_or)
  have e1: "\<not> eligible mp typeBitmask (A OR B) 1"
    using bits by (simp add: eligible_def)
  have "\<forall>j<2. \<not> eligible mp typeBitmask (A OR B) j"
  proof (intro allI impI)
    fix j :: nat assume "j < 2"
    then have "j = 0 \<or> j = 1" by arith
    then show "\<not> eligible mp typeBitmask (A OR B) j" using e0 e1 by blast
  qed
  with e2 have "selectMemoryType mp typeBitmask (A OR B) = Return (of_nat 2)"
    unfolding select_Return_iff by blast
  then show "selectMemoryType mp typeBitmask (A OR B) = Return 2" by simp
qed

lemma flag_set_37: "flag_set (37 :: 32 word) = {0, 2, 5}"
proof -
  have "(37 :: 32 word) = set_bit 5 (set_bit 2 (set_bit 0 0))"
    by (simp add: set_bit_eq_or)
  then have "bit (37 :: 32 word) n \<longleftrightarrow> n = 0 \<or> n = 2 \<or> n = 5" for n
    by (simp only: bit_set_bit_iff) (auto simp: bit_set_bit_iff)
  then show ?thesis by (auto simp: flag_set_def)
qed

lemma wf_example: "wf_memoryProperties (example_memoryProperties A B)"
  by (simp add: wf_memoryProperties_def example_memoryProperties_def VK_MAX_MEMORY_TYPES_def)

theorem selectMemoryType_lowest_eligible_witness:
  "wf_memoryProperties (example_memoryProperties 1 2) \<and>
   eligible (example_memoryProperties 1 2) 37 3 2 \<and>
   flag_set (37 :: 32 word) = {0, 2, 5} \<and> \<not> flag_set (2 :: 32 word) \<subseteq> flag_set 1 \<and>
   selectMemoryType (example_memoryProperties 1 2) 37 3 = Return 2"
proof -
  have ab: "(1 :: 32 word) OR 2 = 3" by simp
  have nsub: "\<not> flag_set (2 :: 32 word) \<subseteq> flag_set 1"
    by (simp add: superset_test [symmetric])
  have el: "eligible (example_memoryProperties 1 2) 37 3 2"
    by (simp add: eligible_def superset_test [symmetric] example_memoryProperties_def
        VK_MAX_MEMORY_TYPES_def)
  have tbl: "propertyFlags (memoryTypes (example_memoryProperties 1 2) ! 0) = 1 \<and>
      propertyFlags (memoryTypes (example_memoryProperties 1 2) ! 2) = 1 OR 2 \<and>
      propertyFlags (memoryTypes (example_memoryProperties 1 2) ! 5) = 1 OR 2"
    by (simp add: example_memoryProperties_def)
  show ?thesis
    using selectMemoryType_lowest_eligible [OF wf_example, of 1 2 37 3 1 2]
      wf_example [of 1 2] flag_set_37 nsub el tbl ab by metis
qed



text \<open>
  Claim C2. For every type bitmask and required flags, \<open>selectMemoryType\<close> reaches its
  fatal path, the failing \<^verbatim>\<open>ASSERT_POSTCONDITION\<close>, if and only if no index is
  eligible; and an index it returns from inside the scan is always an eligible one, so no
  non-eligible index is ever handed back as if it were eligible.
\<close>

theorem selectMemoryType_fatal_iff_none_eligible:
  assumes "wf_memoryProperties mp"
  shows "((\<exists>v. selectMemoryType mp typeBitmask requiredFlags = PostconditionPanic v) \<longleftrightarrow>
            (\<forall>i. \<not> eligible mp typeBitmask requiredFlags i)) \<and>
         (\<forall>r. selectMemoryType mp typeBitmask requiredFlags = Return r \<longrightarrow>
            eligible mp typeBitmask requiredFlags (unat r))"
  unfolding select_Panic_iff select_Return_unat by blast

theorem selectMemoryType_fatal_iff_none_eligible_witness:
  "wf_memoryProperties (example_memoryProperties 1 2) \<and>
   selectMemoryType (example_memoryProperties 1 2) 37 12 = PostconditionPanic 0xFFFFFFFF \<and>
   (\<forall>i. \<not> eligible (example_memoryProperties 1 2) 37 12 i) \<and>
   selectMemoryType (example_memoryProperties 1 2) 37 3 = Return 2 \<and>
   eligible (example_memoryProperties 1 2) 37 3 (unat (2 :: 32 word))"
proof -
  have p: "selectMemoryType (example_memoryProperties 1 2) 37 12 = PostconditionPanic 0xFFFFFFFF"
    by (simp add: selectMemoryType_def example_memoryProperties_def
        selectMemoryType_loop.simps VK_MAX_MEMORY_TYPES_def ucast_minus_one)
  have r: "selectMemoryType (example_memoryProperties 1 2) 37 3 = Return 2"
    by (simp add: selectMemoryType_def example_memoryProperties_def
        selectMemoryType_loop.simps VK_MAX_MEMORY_TYPES_def ucast_minus_one)
  show ?thesis
    using selectMemoryType_fatal_iff_none_eligible [OF wf_example, of 1 2 37 12]
      selectMemoryType_fatal_iff_none_eligible [OF wf_example, of 1 2 37 3]
      wf_example [of 1 2] p r by blast
qed

section \<open>Memory-type selection: the range of the returned index\<close>

lemma bit_below_count:
  fixes w :: "32 word"
  assumes "drop_bit c w = 0" and "bit w i"
  shows "i < c"
proof (rule ccontr)
  assume "\<not> i < c"
  then have "bit (drop_bit c w) (i - c)" using assms(2) by (simp add: bit_drop_bit_eq)
  with assms(1) show False by simp
qed

text \<open>
  Claim C3, as the code has it. The scan runs over all \<^verbatim>\<open>VK_MAX_MEMORY_TYPES\<close>
  elements of the array and never reads \<^verbatim>\<open>memoryTypeCount\<close>: every index returned on
  the success path is below \<^verbatim>\<open>VK_MAX_MEMORY_TYPES\<close>, and it is below
  \<^verbatim>\<open>memoryTypeCount\<close> whenever the type bitmask has no bit set at or above
  \<^verbatim>\<open>memoryTypeCount\<close>.
\<close>

theorem selectMemoryType_index_in_array:
  assumes "wf_memoryProperties mp"
    and "selectMemoryType mp typeBitmask requiredFlags = Return r"
  shows "r < VK_MAX_MEMORY_TYPES \<and>
         (drop_bit (unat (memoryTypeCount mp)) typeBitmask = 0 \<longrightarrow> r < memoryTypeCount mp)"
proof -
  from assms(2) have lt: "unat r < 32" and el: "eligible mp typeBitmask requiredFlags (unat r)"
    unfolding select_Return_unat by blast+
  from lt have "r < VK_MAX_MEMORY_TYPES"
    by (simp add: VK_MAX_MEMORY_TYPES_def word_less_nat_alt)
  moreover have "r < memoryTypeCount mp" if "drop_bit (unat (memoryTypeCount mp)) typeBitmask = 0"
  proof -
    from el have "bit typeBitmask (unat r)" by (simp add: eligible_def)
    with that have "unat r < unat (memoryTypeCount mp)" by (rule bit_below_count)
    then show ?thesis by (simp add: word_less_nat_alt)
  qed
  ultimately show ?thesis by blast
qed

theorem selectMemoryType_index_in_array_witness:
  "wf_memoryProperties (example_memoryProperties 1 2) \<and>
   selectMemoryType (example_memoryProperties 1 2) 37 3 = Return 2 \<and>
   drop_bit (unat (memoryTypeCount (example_memoryProperties 1 2))) (37 :: 32 word) = 0 \<and>
   (2 :: 32 word) < VK_MAX_MEMORY_TYPES \<and> 2 < memoryTypeCount (example_memoryProperties 1 2)"
proof -
  have r: "selectMemoryType (example_memoryProperties 1 2) 37 3 = Return 2"
    by (simp add: selectMemoryType_def example_memoryProperties_def
        selectMemoryType_loop.simps VK_MAX_MEMORY_TYPES_def ucast_minus_one)
  have d: "drop_bit (unat (memoryTypeCount (example_memoryProperties 1 2))) (37 :: 32 word) = 0"
    by (simp add: example_memoryProperties_def)
  show ?thesis
    using selectMemoryType_index_in_array [OF wf_example r] wf_example [of 1 2] r d by blast
qed

text \<open>
  Claim C3 as stated (every returned index is below \<^verbatim>\<open>memoryTypeCount\<close>) does not
  hold: with six memory types reported, a bitmask whose only bit is bit 6 and no required
  flags, the scan returns index 6.
\<close>

theorem selectMemoryType_beyond_memoryTypeCount:
  "wf_memoryProperties (example_memoryProperties 1 2) \<and>
   selectMemoryType (example_memoryProperties 1 2) 64 0 = Return 6 \<and>
   \<not> (6 < memoryTypeCount (example_memoryProperties 1 2))"
proof (intro conjI)
  show "wf_memoryProperties (example_memoryProperties 1 2)" by (rule wf_example)
  show "selectMemoryType (example_memoryProperties 1 2) 64 0 = Return 6"
    by (simp add: selectMemoryType_def example_memoryProperties_def
        selectMemoryType_loop.simps VK_MAX_MEMORY_TYPES_def)
  show "\<not> (6 < memoryTypeCount (example_memoryProperties 1 2))"
    by (simp add: example_memoryProperties_def)
qed

text \<open>
  Claim C8. When no index is eligible, the statement after the failing assertion returns
  \<^verbatim>\<open>(uint32_t) ~0ul\<close>, that is \<open>0xFFFFFFFF\<close>; every index returned from inside the
  scan is below \<^verbatim>\<open>VK_MAX_MEMORY_TYPES\<close> and so differs from that value, which is
  itself not below \<^verbatim>\<open>VK_MAX_MEMORY_TYPES\<close>.
\<close>

theorem selectMemoryType_sentinel:
  assumes "wf_memoryProperties mp"
  shows "((\<forall>i. \<not> eligible mp typeBitmask requiredFlags i) \<longrightarrow>
            selectMemoryType mp typeBitmask requiredFlags = PostconditionPanic 0xFFFFFFFF) \<and>
         (\<forall>r. selectMemoryType mp typeBitmask requiredFlags = Return r \<longrightarrow>
            r < VK_MAX_MEMORY_TYPES \<and> r \<noteq> 0xFFFFFFFF) \<and>
         \<not> (0xFFFFFFFF :: 32 word) < VK_MAX_MEMORY_TYPES"
proof -
  have "r < VK_MAX_MEMORY_TYPES \<and> r \<noteq> 0xFFFFFFFF"
    if "selectMemoryType mp typeBitmask requiredFlags = Return r" for r
  proof -
    from that have "unat r < 32" unfolding select_Return_unat by blast
    then have "r < VK_MAX_MEMORY_TYPES" by (simp add: VK_MAX_MEMORY_TYPES_def word_less_nat_alt)
    moreover from this have "r \<noteq> 0xFFFFFFFF" by (auto simp: VK_MAX_MEMORY_TYPES_def)
    ultimately show ?thesis by blast
  qed
  moreover have "\<not> (0xFFFFFFFF :: 32 word) < VK_MAX_MEMORY_TYPES"
    by (simp add: VK_MAX_MEMORY_TYPES_def)
  ultimately show ?thesis unfolding select_Panic_iff by blast
qed

theorem selectMemoryType_sentinel_witness:
  "wf_memoryProperties (example_memoryProperties 1 2) \<and>
   (\<forall>i. \<not> eligible (example_memoryProperties 1 2) 37 12 i) \<and>
   selectMemoryType (example_memoryProperties 1 2) 37 12 = PostconditionPanic 0xFFFFFFFF \<and>
   selectMemoryType (example_memoryProperties 1 2) 37 3 = Return 2 \<and>
   (2 :: 32 word) < VK_MAX_MEMORY_TYPES \<and> (2 :: 32 word) \<noteq> 0xFFFFFFFF"
proof -
  have p: "selectMemoryType (example_memoryProperties 1 2) 37 12 = PostconditionPanic 0xFFFFFFFF"
    by (simp add: selectMemoryType_def example_memoryProperties_def
        selectMemoryType_loop.simps VK_MAX_MEMORY_TYPES_def ucast_minus_one)
  then have ne: "\<forall>i. \<not> eligible (example_memoryProperties 1 2) 37 12 i"
    unfolding select_Panic_iff by blast
  have r: "selectMemoryType (example_memoryProperties 1 2) 37 3 = Return 2"
    by (simp add: selectMemoryType_def example_memoryProperties_def
        selectMemoryType_loop.simps VK_MAX_MEMORY_TYPES_def ucast_minus_one)
  show ?thesis
    using selectMemoryType_sentinel [OF wf_example, of 1 2 37 12]
      selectMemoryType_sentinel [OF wf_example, of 1 2 37 3] wf_example [of 1 2] p ne r
    by blast
qed



section \<open>TexturePointer: the two modes\<close>

text \<open>
  Claim C4. For every TexturePointer, the conversion to
  \<^verbatim>\<open>std::shared_ptr<VulkanTexture>\<close> passes its assertion and returns if and only if
  the handle is in owning mode; on a handle in non-owning mode the assertion fires; on an
  owning handle the result is the shared reference the handle holds, to the same texture
  that the raw-pointer conversion yields. A handle constructed from a raw pointer is
  non-owning, one constructed from a shared reference is owning.
\<close>

theorem operator_shared_ptr_iff_owning:
  "((\<exists>sp. operator_shared_ptr this = Inr sp) \<longleftrightarrow> owning this) \<and>
   (operator_shared_ptr this = Inl AssertInvariant \<longleftrightarrow> \<not> owning this) \<and>
   (\<forall>sp. operator_shared_ptr this = Inr sp \<longrightarrow>
      mTexture this = V1 sp \<and> operator_VulkanTexture_ptr this = Inr (get sp)) \<and>
   \<not> owning (TexturePointer_ptr p) \<and>
   operator_shared_ptr (TexturePointer_ptr p) = Inl AssertInvariant \<and>
   owning (TexturePointer_shared_ptr tex) \<and>
   operator_shared_ptr (TexturePointer_shared_ptr tex) = Inr tex"
  by (cases "mTexture this")
     (simp_all add: operator_shared_ptr_def owning_def operator_VulkanTexture_ptr_def
        TexturePointer_ptr_def TexturePointer_shared_ptr_def)

theorem operator_shared_ptr_iff_owning_witness:
  "operator_shared_ptr (TexturePointer_shared_ptr \<lparr>get = 4096, control_block = 1\<rparr>)
     = Inr \<lparr>get = 4096, control_block = 1\<rparr> \<and>
   mTexture (TexturePointer_shared_ptr \<lparr>get = 4096, control_block = 1\<rparr>)
     = V1 \<lparr>get = 4096, control_block = 1\<rparr> \<and>
   operator_VulkanTexture_ptr (TexturePointer_shared_ptr \<lparr>get = 4096, control_block = 1\<rparr>)
     = Inr 4096 \<and>
   operator_shared_ptr (TexturePointer_ptr 4096) = Inl AssertInvariant"
  using operator_shared_ptr_iff_owning
    [of "TexturePointer_shared_ptr \<lparr>get = 4096, control_block = 1\<rparr>" 4096
        "\<lparr>get = 4096, control_block = 1\<rparr>"]
  by simp

text \<open>
  Claim C5. For any shared reference \<open>tex\<close> to a texture at \<open>get tex\<close>, the handle
  constructed in non-owning mode from the pointer \<open>get tex\<close> and the handle constructed
  in owning mode from \<open>tex\<close> give the same results under \<^verbatim>\<open>operator->\<close> (const and
  non-const), under the conversions to \<^verbatim>\<open>VulkanTexture*\<close> and
  \<^verbatim>\<open>VulkanTexture const*\<close>, and under the boolean check.
\<close>

theorem dereference_mode_independent:
  "operator_arrow (TexturePointer_ptr (get tex)) = Inr (get tex) \<and>
   operator_arrow (TexturePointer_shared_ptr tex) = Inr (get tex) \<and>
   operator_arrow_const (TexturePointer_ptr (get tex)) = Inr (get tex) \<and>
   operator_arrow_const (TexturePointer_shared_ptr tex) = Inr (get tex) \<and>
   operator_VulkanTexture_ptr (TexturePointer_ptr (get tex)) = Inr (get tex) \<and>
   operator_VulkanTexture_ptr (TexturePointer_shared_ptr tex) = Inr (get tex) \<and>
   operator_VulkanTexture_const_ptr (TexturePointer_ptr (get tex)) = Inr (get tex) \<and>
   operator_VulkanTexture_const_ptr (TexturePointer_shared_ptr tex) = Inr (get tex) \<and>
   operator_bool (TexturePointer_ptr (get tex)) = Inr (get tex \<noteq> nullptr) \<and>
   operator_bool (TexturePointer_shared_ptr tex) = Inr (get tex \<noteq> nullptr)"
  by (simp add: operator_arrow_def operator_arrow_const_def operator_VulkanTexture_ptr_def
      operator_VulkanTexture_const_ptr_def operator_bool_def TexturePointer_ptr_def
      TexturePointer_shared_ptr_def)

text \<open>
  Claim C9. The mode of a handle is that of its most recent assignment, whatever it was
  before: after assigning a raw pointer the handle is non-owning and the shared-owning
  conversion asserts, also when the handle was owning; after assigning a shared reference
  it is owning and the conversion returns that reference, also when the handle was
  non-owning.
\<close>

theorem assignment_sets_mode:
  "\<not> owning (assign_ptr this p) \<and>
   operator_shared_ptr (assign_ptr this p) = Inl AssertInvariant \<and>
   operator_VulkanTexture_ptr (assign_ptr this p) = Inr p \<and>
   owning (assign_shared_ptr this tex) \<and>
   operator_shared_ptr (assign_shared_ptr this tex) = Inr tex \<and>
   operator_shared_ptr (assign_ptr (TexturePointer_shared_ptr tex) p) = Inl AssertInvariant \<and>
   operator_shared_ptr (assign_shared_ptr (TexturePointer_ptr p) tex) = Inr tex"
  by (simp add: owning_def assign_ptr_def assign_shared_ptr_def operator_shared_ptr_def
      operator_VulkanTexture_ptr_def)

text \<open>
  Claim C10. A default-constructed TexturePointer is in non-owning mode and holds the null
  pointer: the boolean check yields false, both raw-pointer conversions yield the null
  pointer, and the shared-owning conversion triggers the assertion.
\<close>

theorem default_constructed:
  "mTexture TexturePointer_default = V0 nullptr \<and>
   \<not> owning TexturePointer_default \<and>
   operator_bool TexturePointer_default = Inr False \<and>
   operator_VulkanTexture_ptr TexturePointer_default = Inr nullptr \<and>
   operator_VulkanTexture_const_ptr TexturePointer_default = Inr nullptr \<and>
   operator_shared_ptr TexturePointer_default = Inl AssertInvariant"
  by (simp add: TexturePointer_default_def owning_def operator_bool_def
      operator_VulkanTexture_ptr_def operator_VulkanTexture_const_ptr_def operator_shared_ptr_def)

section \<open>The timer query pool\<close>



lemma least_unique:
  fixes i i' :: nat
  assumes "P i" "\<forall>j<i. \<not> P j" "P i'" "\<forall>j<i'. \<not> P j"
  shows "i = i'"
  using assms by (meson linorder_neqE_nat)

lemma getNextQuery_Inr_iff:
  "getNextQuery this = Inr ((a, b), this') \<longleftrightarrow>
     (\<exists>i. i + 1 < capacity \<and> free_pair (mUsed this) i \<and> (\<forall>j<i. \<not> free_pair (mUsed this) j) \<and>
          a = of_nat i \<and> b = of_nat (i + 1) \<and>
          this' = this\<lparr>mUsed := set_bit (i + 1) (set_bit i (mUsed this))\<rparr>)"
proof (cases "find (free_pair (mUsed this)) [0 ..< 31]")
  case None
  then have "getNextQuery this = Inl ResourceExhausted"
    by (simp add: getNextQuery_def capacity_def)
  moreover from None have "\<forall>i<31. \<not> free_pair (mUsed this) i"
    by (simp only: find_upt_None)
  ultimately show ?thesis by (auto simp: capacity_def)
next
  case (Some k)
  then have g: "getNextQuery this =
      Inr ((of_nat k, of_nat (k + 1)), this\<lparr>mUsed := set_bit (k + 1) (set_bit k (mUsed this))\<rparr>)"
    by (simp add: getNextQuery_def capacity_def)
  from Some have k: "k < 31" "free_pair (mUsed this) k" "\<forall>j<k. \<not> free_pair (mUsed this) j"
    unfolding find_upt_Some by blast+
  show ?thesis
  proof
    assume "getNextQuery this = Inr ((a, b), this')"
    with g k show "\<exists>i. i + 1 < capacity \<and> free_pair (mUsed this) i \<and>
        (\<forall>j<i. \<not> free_pair (mUsed this) j) \<and> a = of_nat i \<and> b = of_nat (i + 1) \<and>
        this' = this\<lparr>mUsed := set_bit (i + 1) (set_bit i (mUsed this))\<rparr>"
      by (intro exI [of _ k]) (simp add: capacity_def)
  next
    assume "\<exists>i. i + 1 < capacity \<and> free_pair (mUsed this) i \<and>
        (\<forall>j<i. \<not> free_pair (mUsed this) j) \<and> a = of_nat i \<and> b = of_nat (i + 1) \<and>
        this' = this\<lparr>mUsed := set_bit (i + 1) (set_bit i (mUsed this))\<rparr>"
    then obtain i where i: "free_pair (mUsed this) i" "\<forall>j<i. \<not> free_pair (mUsed this) j"
      and r: "a = of_nat i" "b = of_nat (i + 1)"
        "this' = this\<lparr>mUsed := set_bit (i + 1) (set_bit i (mUsed this))\<rparr>"
      by blast
    have "i = k" using i k(2,3) by (rule least_unique)
    with g r show "getNextQuery this = Inr ((a, b), this')" by simp
  qed
qed

lemma getNextQuery_Inl_iff:
  "getNextQuery this = Inl e \<longleftrightarrow>
     e = ResourceExhausted \<and> (\<forall>i. i + 1 < capacity \<longrightarrow> \<not> free_pair (mUsed this) i)"
proof (cases "find (free_pair (mUsed this)) [0 ..< 31]")
  case None
  then have "getNextQuery this = Inl ResourceExhausted"
    by (simp add: getNextQuery_def capacity_def)
  moreover from None have "\<forall>i<31. \<not> free_pair (mUsed this) i"
    by (simp only: find_upt_None)
  ultimately show ?thesis by (auto simp: capacity_def)
next
  case (Some k)
  then have g: "getNextQuery this =
      Inr ((of_nat k, of_nat (k + 1)), this\<lparr>mUsed := set_bit (k + 1) (set_bit k (mUsed this))\<rparr>)"
    by (simp add: getNextQuery_def capacity_def)
  from Some have k: "k < 31" "free_pair (mUsed this) k"
    unfolding find_upt_Some by blast+
  with g show ?thesis by (auto simp: capacity_def)
qed

lemma clear_after_set:
  fixes u :: "32 word"
  assumes "free_pair u i"
  shows "unset_bit (i + 1) (unset_bit i (set_bit (i + 1) (set_bit i u))) = u"
  using assms
  by (intro bit_eqI) (auto simp: free_pair_def bit_unset_bit_iff bit_set_bit_iff)

lemma bit_clearQuery:
  "bit (mUsed (clearQuery this q)) n \<longleftrightarrow> bit (mUsed this) n \<and> n \<noteq> unat q \<and> n \<noteq> unat q + 1"
  by (auto simp: clearQuery_def bit_unset_bit_iff)

lemma bit_after_set:
  fixes u :: "32 word"
  assumes "i < 31"
  shows "bit (set_bit (i + 1) (set_bit i u)) n \<longleftrightarrow> n = i \<or> n = i + 1 \<or> bit u n"
  using assms by (auto simp: bit_set_bit_iff dest: bit_imp_le_length)


lemma getNextQuery_success:
  assumes g: "getNextQuery this = Inr ((a, b), this')"
  shows "unat a + 1 < capacity \<and> unat b = unat a + 1 \<and>
      free_pair (mUsed this) (unat a) \<and>
      (\<forall>j<unat a. \<not> free_pair (mUsed this) j) \<and>
      (\<forall>n. bit (mUsed this') n \<longleftrightarrow> n = unat a \<or> n = unat b \<or> bit (mUsed this) n) \<and>
      clearQuery this' a = this \<and>
      getNextQuery (clearQuery this' a) = Inr ((a, b), this')"
proof -
  from g obtain i where i: "i < 31" "free_pair (mUsed this) i" "\<forall>j<i. \<not> free_pair (mUsed this) j"
    and r: "a = of_nat i" "b = of_nat (i + 1)"
      "this' = this\<lparr>mUsed := set_bit (i + 1) (set_bit i (mUsed this))\<rparr>"
    unfolding getNextQuery_Inr_iff by (auto simp: capacity_def)
  have ua: "unat a = i"
    unfolding r(1) unat_of_nat using i(1) by simp
  have ub: "unat b = i + 1"
    unfolding r(2) unat_of_nat using i(1) by simp
  have f1: "unat a + 1 < capacity" using ua i(1) by (simp add: capacity_def)
  have f2: "unat b = unat a + 1" using ua ub by simp
  have f3: "free_pair (mUsed this) (unat a)" using ua i(2) by simp
  have f4: "\<forall>j<unat a. \<not> free_pair (mUsed this) j" using ua i(3) by simp
  have f5: "\<forall>n. bit (mUsed this') n \<longleftrightarrow> n = unat a \<or> n = unat b \<or> bit (mUsed this) n"
    unfolding ua ub r(3) using bit_after_set [OF i(1)] by simp
  have f6: "clearQuery this' a = this"
    unfolding clearQuery_def ua r(3) using clear_after_set [OF i(2)] by simp
  have f7: "getNextQuery (clearQuery this' a) = Inr ((a, b), this')"
    unfolding f6 by (rule g)
  show ?thesis by (intro conjI; fact)
qed

lemma getNextQuery_succeeds_iff:
  "(\<exists>r. getNextQuery this = Inr r) \<longleftrightarrow> (\<exists>i. i + 1 < capacity \<and> free_pair (mUsed this) i)"
proof (cases "getNextQuery this")
  case (Inl e)
  then show ?thesis using getNextQuery_Inl_iff [of this e] by auto
next
  case (Inr r)
  obtain a b this' where "r = ((a, b), this')" by (metis prod.exhaust)
  with Inr show ?thesis using getNextQuery_Inr_iff [of this a b this'] by auto
qed

text \<open>
  Claim C7. For every pool state: a successful \<open>getNextQuery\<close> returns the
  lowest-indexed adjacent pair of slots that are both free and marks both used, changing
  no other bit; both returned slots were free before, so none is held by a live
  allocation; it succeeds exactly when some adjacent pair is free. \<open>clearQuery\<close> clears
  both bits of the pair and no other, so freeing the pair just allocated restores the pool
  and the next allocation yields the same pair.
\<close>

theorem getNextQuery_lowest_free_pair:
  "(\<forall>a b this'. getNextQuery this = Inr ((a, b), this') \<longrightarrow>
      unat a + 1 < capacity \<and> unat b = unat a + 1 \<and>
      free_pair (mUsed this) (unat a) \<and>
      (\<forall>j<unat a. \<not> free_pair (mUsed this) j) \<and>
      (\<forall>n. bit (mUsed this') n \<longleftrightarrow> n = unat a \<or> n = unat b \<or> bit (mUsed this) n) \<and>
      clearQuery this' a = this \<and>
      getNextQuery (clearQuery this' a) = Inr ((a, b), this')) \<and>
   ((\<exists>r. getNextQuery this = Inr r) \<longleftrightarrow> (\<exists>i. i + 1 < capacity \<and> free_pair (mUsed this) i)) \<and>
   (\<forall>n. bit (mUsed (clearQuery this q)) n \<longleftrightarrow>
      bit (mUsed this) n \<and> n \<noteq> unat q \<and> n \<noteq> unat q + 1)"
proof -
  have alloc: "\<forall>a b this'. getNextQuery this = Inr ((a, b), this') \<longrightarrow>
      unat a + 1 < capacity \<and> unat b = unat a + 1 \<and>
      free_pair (mUsed this) (unat a) \<and>
      (\<forall>j<unat a. \<not> free_pair (mUsed this) j) \<and>
      (\<forall>n. bit (mUsed this') n \<longleftrightarrow> n = unat a \<or> n = unat b \<or> bit (mUsed this) n) \<and>
      clearQuery this' a = this \<and>
      getNextQuery (clearQuery this' a) = Inr ((a, b), this')"
    by (intro allI impI) (rule getNextQuery_success)
  have free: "\<forall>n. bit (mUsed (clearQuery this q)) n \<longleftrightarrow>
      bit (mUsed this) n \<and> n \<noteq> unat q \<and> n \<noteq> unat q + 1"
    by (intro allI) (rule bit_clearQuery)
  show ?thesis
    by (rule conjI [OF alloc conjI [OF getNextQuery_succeeds_iff free]])
qed

theorem getNextQuery_lowest_free_pair_witness:
  "getNextQuery \<lparr>mDevice = 7, mPool = 9, mUsed = 19\<rparr> =
     Inr ((2, 3), \<lparr>mDevice = 7, mPool = 9, mUsed = 31\<rparr>) \<and>
   free_pair (19 :: 32 word) 2 \<and> \<not> free_pair (19 :: 32 word) 0 \<and> \<not> free_pair (19 :: 32 word) 1 \<and>
   clearQuery \<lparr>mDevice = 7, mPool = 9, mUsed = 31\<rparr> 2 = \<lparr>mDevice = 7, mPool = 9, mUsed = 19\<rparr> \<and>
   getNextQuery (clearQuery \<lparr>mDevice = 7, mPool = 9, mUsed = 31\<rparr> 2) =
     Inr ((2, 3), \<lparr>mDevice = 7, mPool = 9, mUsed = 31\<rparr>)"
proof -
  have g: "getNextQuery \<lparr>mDevice = 7, mPool = 9, mUsed = 19\<rparr> =
      Inr ((2, 3), \<lparr>mDevice = 7, mPool = 9, mUsed = 31\<rparr>)"
    by code_simp
  have f: "free_pair (19 :: 32 word) 2 \<and> \<not> free_pair (19 :: 32 word) 0 \<and> \<not> free_pair (19 :: 32 word) 1"
    by (simp add: free_pair_def)
  show ?thesis
    using getNextQuery_lowest_free_pair [of "\<lparr>mDevice = 7, mPool = 9, mUsed = 19\<rparr>"] g f
    by simp
qed

text \<open>
  Claim C6. A new pool with the 32-bit presence bitmap allows 16 successive allocations;
  the pairs handed out are (0, 1), (2, 3), ..., (30, 31), whose 32 slots are pairwise
  distinct; the 17th allocation, with nothing freed in between, fails with
  \<open>ResourceExhausted\<close>.
\<close>

theorem query_pool_capacity:
  "(\<exists>pairs this'.
      allocate_n 16 (VulkanTimestamps_new device pool) = Inr (pairs, this') \<and>
      pairs = [(0, 1), (2, 3), (4, 5), (6, 7), (8, 9), (10, 11), (12, 13), (14, 15),
               (16, 17), (18, 19), (20, 21), (22, 23), (24, 25), (26, 27), (28, 29), (30, 31)] \<and>
      length pairs = 16 \<and> distinct (slots_of pairs) \<and>
      getNextQuery this' = Inl ResourceExhausted) \<and>
   allocate_n 17 (VulkanTimestamps_new device pool) = Inl ResourceExhausted"
proof -
  let ?pairs = "[(0, 1), (2, 3), (4, 5), (6, 7), (8, 9), (10, 11), (12, 13), (14, 15),
      (16, 17), (18, 19), (20, 21), (22, 23), (24, 25), (26, 27), (28, 29), (30, 31)]
      :: (u32 \<times> u32) list"
  let ?full = "\<lparr>mDevice = device, mPool = pool, mUsed = 0xFFFFFFFF\<rparr>"
  have a16: "allocate_n 16 (VulkanTimestamps_new device pool) = Inr (?pairs, ?full)"
    by code_simp
  have len: "length ?pairs = 16"
    by simp
  have dis: "distinct (slots_of ?pairs)"
    by (simp add: slots_of_def)
  have ex: "getNextQuery ?full = Inl ResourceExhausted"
    by code_simp
  have a17: "allocate_n 17 (VulkanTimestamps_new device pool) = Inl ResourceExhausted"
    by code_simp
  from a16 len dis ex have
    "allocate_n 16 (VulkanTimestamps_new device pool) = Inr (?pairs, ?full) \<and>
     ?pairs = ?pairs \<and> length ?pairs = 16 \<and> distinct (slots_of ?pairs) \<and>
     getNextQuery ?full = Inl ResourceExhausted"
    by (intro conjI refl)
  then have "\<exists>pairs this'.
      allocate_n 16 (VulkanTimestamps_new device pool) = Inr (pairs, this') \<and>
      pairs = ?pairs \<and> length pairs = 16 \<and> distinct (slots_of pairs) \<and>
      getNextQuery this' = Inl ResourceExhausted"
    by (intro exI)
  with a17 show ?thesis by (intro conjI)
qed

end
